theory Spec2Isabelle
  imports Main
begin

section \<open>Data model\<close>

text \<open>
  The engine lives in \<^verbatim>\<open>src/unnamed/part_000\<close> (the module the date picker imports as
  \<^verbatim>\<open>@/lib/nepali-date\<close>). A \<^verbatim>\<open>number\<close> that is an argument, or a field of an argument, is
  modelled by \<^typ>\<open>int\<close>: the fields of a date are integers. The NaN that the code itself
  produces, from the Invalid Date or from a read past the end of a row, is modelled by
  the outcomes of a call given below. A string is the list of its UTF-16 code units,
  which is what \<^verbatim>\<open>padStart\<close> counts.
\<close>

record NepaliDate =
  year :: int
  month :: int
  day :: int

type_synonym jsstring = "nat list"

definition text_of :: "string \<Rightarrow> jsstring" where
  "text_of s = map of_char s"

datatype error_code = INVALID_NEPALI_DATE | INVALID_ENGLISH_DATE | OUT_OF_RANGE

record DateConversionError =
  message :: jsstring
  code :: error_code
  details :: "jsstring option"

text \<open>
  A call either returns a value or throws a \<open>DateConversionError\<close>. Two more outcomes
  stand for the returned values that no integer models: \<open>Undefined\<close> is the
  \<^verbatim>\<open>undefined\<close> that JavaScript yields for a read past the end of an array, or the NaN
  that the arithmetic on it gives; \<open>NaNDate y m\<close> is the returned date object
  \<^verbatim>\<open>{year: y, month: m, day: NaN}\<close>. They are kept apart so that neither is mistaken
  for a thrown error or for a date with integer fields.
\<close>

datatype 'a result = Return 'a | Throw DateConversionError | Undefined | NaNDate int int

text \<open>
  A \<^verbatim>\<open>Date\<close> is either the Invalid Date, whose time value is NaN, or a date with a
  time value; the latter is identified by the reading of the local clock at its instant,
  in milliseconds (\<open>LocalTime t\<close>). The constructor \<^verbatim>\<open>new Date(y, m, d)\<close> and
  \<^verbatim>\<open>setDate\<close> work on that reading. The time zone of the environment is a parameter: a
  \<open>zone\<close> gives the UTC offset in milliseconds that is in force when the local clock
  shows a reading, and \<^verbatim>\<open>getTime()\<close> returns the reading less that offset.
\<close>

type_synonym zone = "int \<Rightarrow> int"

datatype Date = LocalTime int | InvalidDate

fun getTime :: "zone \<Rightarrow> Date \<Rightarrow> int option" where
  "getTime z (LocalTime t) = Some (t - z t)"
| "getTime z InvalidDate = None"

section \<open>The JavaScript runtime functions the engine calls\<close>

text \<open>\<^verbatim>\<open>xs[i]\<close>: the element, or \<^verbatim>\<open>undefined\<close> outside the array.\<close>

definition index :: "'a list \<Rightarrow> int \<Rightarrow> 'a option" where
  "index xs i = (if 0 \<le> i \<and> i < int (length xs) then Some (xs ! nat i) else None)"

text \<open>
  \<^verbatim>\<open>Number.prototype.toString\<close> on an integer: its decimal digits, with a sign (the
  notation JavaScript prints for integers below \<open>10\<^sup>2\<^sup>1\<close> in absolute value).
\<close>

fun digits :: "nat \<Rightarrow> string" where
  "digits n = (if n < 10 then [char_of (48 + n)] else digits (n div 10) @ [char_of (48 + n mod 10)])"

declare digits.simps [simp del]

definition toString :: "int \<Rightarrow> jsstring" where
  "toString i = text_of (if i < 0 then CHR ''-'' # digits (nat (- i)) else digits (nat i))"

text \<open>\<^verbatim>\<open>String.prototype.padStart(targetLength, padString)\<close>.\<close>

definition padStart :: "jsstring \<Rightarrow> nat \<Rightarrow> jsstring \<Rightarrow> jsstring" where
  "padStart s targetLength padString =
     (if targetLength \<le> length s \<or> padString = [] then s
      else take (targetLength - length s)
             (concat (replicate (targetLength - length s) padString)) @ s)"

text \<open>
  \<^verbatim>\<open>new Date(year, monthIndex, day)\<close>, following ECMAScript's \<^verbatim>\<open>DayFromYear\<close> and
  \<^verbatim>\<open>MakeDay\<close>: the month index is zero-based and overflows into the year, the day of the
  month is added to the first of the month, and a year from 0 to 99 means 1900 + year.
\<close>

definition msPerDay :: int where
  "msPerDay = 1000 * 60 * 60 * 24"

definition DayFromYear :: "int \<Rightarrow> int" where
  "DayFromYear y = 365 * (y - 1970) + (y - 1969) div 4 - (y - 1901) div 100 + (y - 1601) div 400"

definition InLeapYear :: "int \<Rightarrow> bool" where
  "InLeapYear y = (y mod 4 = 0 \<and> (y mod 100 \<noteq> 0 \<or> y mod 400 = 0))"

definition monthStartDay :: "int \<Rightarrow> int \<Rightarrow> int" where
  "monthStartDay y mn =
     [0, 31, 59, 90, 120, 151, 181, 212, 243, 273, 304, 334] ! nat mn
       + (if InLeapYear y \<and> 2 \<le> mn then 1 else 0)"

definition MakeDay :: "int \<Rightarrow> int \<Rightarrow> int \<Rightarrow> int" where
  "MakeDay y m dt =
     (let ym = y + m div 12; mn = m mod 12
      in DayFromYear ym + monthStartDay ym mn + dt - 1)"

definition localMidnight :: "int \<Rightarrow> int \<Rightarrow> int \<Rightarrow> int" where
  "localMidnight y m dt = MakeDay (if 0 \<le> y \<and> y \<le> 99 then 1900 + y else y) m dt * msPerDay"

definition newDate :: "int \<Rightarrow> int \<Rightarrow> int \<Rightarrow> Date" where
  "newDate y m dt = LocalTime (localMidnight y m dt)"

text \<open>
  \<^verbatim>\<open>d.setDate(d.getDate() + n)\<close>: the day of the month overflows into the following
  months, so the local reading moves by \<open>n\<close> whole days and keeps its time of day. The
  Invalid Date stays invalid.
\<close>

fun addDays :: "Date \<Rightarrow> int \<Rightarrow> Date" where
  "addDays (LocalTime t) n = LocalTime (t + n * msPerDay)"
| "addDays InvalidDate n = InvalidDate"


section \<open>The calendar table and the month names\<close>

definition calendarEntries :: "(int \<times> int list) list" where
  "calendarEntries =
    [
     (2000, [30, 32, 31, 32, 31, 30, 30, 30, 29, 30, 29, 31]),
     (2001, [31, 31, 32, 31, 31, 31, 30, 29, 30, 29, 30, 30]),
     (2002, [31, 31, 32, 32, 31, 30, 30, 29, 30, 29, 30, 30]),
     (2003, [31, 32, 31, 32, 31, 30, 30, 30, 29, 29, 30, 31]),
     (2004, [30, 32, 31, 32, 31, 30, 30, 30, 29, 30, 29, 31]),
     (2005, [31, 31, 32, 31, 31, 31, 30, 29, 30, 29, 30, 30]),
     (2006, [31, 31, 32, 32, 31, 30, 30, 29, 30, 29, 30, 30]),
     (2007, [31, 32, 31, 32, 31, 30, 30, 30, 29, 29, 30, 31]),
     (2008, [31, 31, 31, 32, 31, 31, 29, 30, 30, 29, 29, 31]),
     (2009, [31, 31, 32, 31, 31, 31, 30, 29, 30, 29, 30, 30]),
     (2010, [31, 31, 32, 32, 31, 30, 30, 29, 30, 29, 30, 30]),
     (2011, [31, 32, 31, 32, 31, 30, 30, 30, 29, 29, 30, 31]),
     (2012, [31, 31, 31, 32, 31, 31, 29, 30, 30, 29, 30, 30]),
     (2013, [31, 31, 32, 31, 31, 31, 30, 29, 30, 29, 30, 30]),
     (2014, [31, 31, 32, 32, 31, 30, 30, 29, 30, 29, 30, 30]),
     (2015, [31, 32, 31, 32, 31, 30, 30, 30, 29, 29, 30, 31]),
     (2016, [31, 31, 31, 32, 31, 31, 29, 30, 30, 29, 30, 30]),
     (2017, [31, 31, 32, 31, 31, 31, 30, 29, 30, 29, 30, 30]),
     (2018, [31, 32, 31, 32, 31, 30, 30, 29, 30, 29, 30, 30]),
     (2019, [31, 32, 31, 32, 31, 30, 30, 30, 29, 30, 29, 31]),
     (2020, [31, 31, 31, 32, 31, 31, 30, 29, 30, 29, 30, 30]),
     (2021, [31, 31, 32, 31, 31, 31, 30, 29, 30, 29, 30, 30]),
     (2022, [31, 32, 31, 32, 31, 30, 30, 30, 29, 29, 30, 30]),
     (2023, [31, 32, 31, 32, 31, 30, 30, 30, 29, 30, 29, 31]),
     (2024, [31, 31, 31, 32, 31, 31, 30, 29, 30, 29, 30, 30]),
     (2025, [31, 31, 32, 31, 31, 31, 30, 29, 30, 29, 30, 30]),
     (2026, [31, 32, 31, 32, 31, 30, 30, 30, 29, 29, 30, 31]),
     (2027, [30, 32, 31, 32, 31, 30, 30, 30, 29, 30, 29, 31]),
     (2028, [31, 31, 32, 31, 31, 31, 30, 29, 30, 29, 30, 30]),
     (2029, [31, 31, 32, 31, 32, 30, 30, 29, 30, 29, 30, 30]),
     (2030, [31, 32, 31, 32, 31, 30, 30, 30, 29, 29, 30, 31]),
     (2031, [30, 32, 31, 32, 31, 30, 30, 30, 29, 30, 29, 31]),
     (2032, [31, 31, 32, 31, 31, 31, 30, 29, 30, 29, 30, 30]),
     (2033, [31, 31, 32, 32, 31, 30, 30, 29, 30, 29, 30, 30]),
     (2034, [31, 32, 31, 32, 31, 30, 30, 30, 29, 29, 30, 31]),
     (2035, [30, 32, 31, 32, 31, 31, 29, 30, 30, 29, 29, 31]),
     (2036, [31, 31, 32, 31, 31, 31, 30, 30, 29, 30, 30, 30]),
     (2037, [30, 31, 32, 32, 31, 30, 30, 30, 29, 30, 30, 30]),
     (2038, [30, 32, 31, 32, 31, 30, 30, 30, 29, 30, 30, 30]),
     (2039, [30, 31, 32, 32, 31, 30, 30, 30, 29, 30, 30, 30]),
     (2040, [30, 32, 31, 32, 31, 30, 30, 30, 29, 30, 30, 30]),
     (2041, [31, 31, 32, 31, 31, 31, 30, 30, 29, 30, 30, 30]),
     (2042, [30, 31, 32, 32, 31, 30, 30, 30, 29, 30, 30, 30]),
     (2043, [31, 32, 31, 32, 31, 30, 30, 30, 29, 30, 30, 30]),
     (2044, [31, 31, 32, 31, 31, 31, 30, 29, 30, 29, 30, 30]),
     (2045, [31, 31, 32, 31, 31, 31, 30, 29, 29, 30, 30, 30]),
     (2046, [31, 32, 31, 32, 31, 30, 30, 30, 29, 30, 30, 30]),
     (2047, [31, 31, 31, 32, 31, 31, 29, 30, 29, 30, 30, 30]),
     (2048, [31, 31, 32, 31, 31, 31, 30, 30, 29, 30, 30, 30]),
     (2049, [31, 32, 31, 32, 31, 30, 30, 30, 29, 30, 30, 30]),
     (2050, [31, 32, 31, 32, 31, 30, 30, 30, 29, 30, 30, 30]),
     (2051, [31, 31, 31, 32, 31, 31, 30, 29, 30, 29, 30, 30]),
     (2052, [31, 31, 32, 31, 31, 31, 30, 30, 29, 30, 30, 30]),
     (2053, [31, 32, 31, 32, 31, 30, 30, 30, 29, 30, 30, 30]),
     (2054, [31, 32, 31, 32, 31, 30, 30, 30, 29, 30, 30, 30]),
     (2055, [31, 31, 32, 31, 31, 31, 30, 29, 30, 29, 30, 30]),
     (2056, [31, 31, 32, 31, 32, 30, 30, 29, 30, 29, 30, 30]),
     (2057, [31, 32, 31, 32, 31, 30, 30, 30, 29, 30, 30, 30]),
     (2058, [30, 32, 31, 32, 31, 30, 30, 30, 29, 30, 30, 30]),
     (2059, [31, 31, 32, 31, 31, 31, 30, 29, 30, 29, 30, 30]),
     (2060, [31, 31, 32, 32, 31, 30, 30, 29, 30, 29, 30, 30]),
     (2061, [31, 32, 31, 32, 31, 30, 30, 30, 29, 29, 30, 31]),
     (2062, [30, 32, 31, 32, 31, 31, 29, 30, 29, 30, 29, 31]),
     (2063, [31, 31, 32, 31, 31, 31, 30, 29, 30, 29, 30, 30]),
     (2064, [31, 31, 32, 32, 31, 30, 30, 29, 30, 29, 30, 30]),
     (2065, [31, 32, 31, 32, 31, 30, 30, 30, 29, 29, 30, 31]),
     (2066, [31, 31, 31, 32, 31, 31, 29, 30, 30, 29, 29, 31]),
     (2067, [31, 31, 32, 31, 31, 31, 30, 29, 30, 29, 30, 30]),
     (2068, [31, 31, 32, 32, 31, 30, 30, 29, 30, 29, 30, 30]),
     (2069, [31, 32, 31, 32, 31, 30, 30, 30, 29, 29, 30, 31]),
     (2070, [31, 31, 31, 32, 31, 31, 29, 30, 30, 29, 30, 30]),
     (2071, [31, 31, 32, 31, 31, 31, 30, 29, 30, 29, 30, 30]),
     (2072, [31, 32, 31, 32, 31, 30, 30, 29, 30, 29, 30, 30]),
     (2073, [31, 32, 31, 32, 31, 30, 30, 30, 29, 29, 30, 31]),
     (2074, [31, 31, 31, 32, 31, 31, 30, 29, 30, 29, 30, 30]),
     (2075, [31, 31, 32, 31, 31, 31, 30, 29, 30, 29, 30, 30]),
     (2076, [31, 32, 31, 32, 31, 30, 30, 30, 29, 29, 30, 30]),
     (2077, [31, 32, 31, 32, 31, 30, 30, 30, 29, 30, 29, 31]),
     (2078, [31, 31, 31, 32, 31, 31, 30, 29, 30, 29, 30, 30]),
     (2079, [31, 31, 32, 31, 31, 31, 30, 29, 30, 29, 30, 30]),
     (2080, [31, 32, 31, 32, 31, 30, 30, 30, 29, 29, 30, 30]),
     (2081, [31, 31, 32, 32, 31, 30, 30, 30, 29, 30, 30, 30]),
     (2082, [30, 32, 31, 32, 31, 30, 30, 30, 29, 30, 30, 30]),
     (2083, [31, 31, 32, 31, 31, 30, 30, 30, 29, 30, 30, 30]),
     (2084, [31, 31, 32, 31, 31, 30, 30, 30, 29, 30, 30, 30]),
     (2085, [31, 32, 31, 32, 30, 31, 30, 30, 29, 30, 30, 30]),
     (2086, [30, 32, 31, 32, 31, 30, 30, 30, 29, 30, 30, 30]),
     (2087, [31, 31, 32, 31, 31, 31, 30, 30, 29, 30, 30, 30]),
     (2088, [30, 31, 32, 32, 30, 31, 30, 30, 29, 30, 30, 30]),
     (2089, [30, 32, 31, 32, 31, 30, 30, 30, 29, 30, 30, 30]),
     (2090, [30, 32, 31, 32, 31, 30, 30, 30, 29, 30, 30, 30]),
     (2091, [31, 31, 32, 31, 31, 31, 30, 30, 29, 30, 30, 30]),
     (2092, [30, 31, 32, 32, 31, 30, 30, 30, 29, 30, 30, 30]),
     (2093, [30, 32, 31, 32, 31, 30, 30, 30, 29, 30, 30, 30]),
     (2094, [31, 31, 32, 31, 31, 30, 30, 30, 29, 30, 30, 30]),
     (2095, [31, 31, 32, 31, 31, 31, 29, 30, 29, 30, 30, 30]),
     (2096, [30, 31, 32, 32, 31, 30, 30, 29, 30, 29, 30, 30]),
     (2097, [31, 32, 31, 32, 31, 30, 30, 30, 29, 30, 30, 30]),
     (2098, [31, 31, 32, 31, 31, 31, 30, 29, 29, 30, 30, 30]),
     (2099, [31, 31, 32, 31, 31, 31, 30, 29, 29, 30, 30, 30]),
     (2100, [31, 32, 31, 32, 30, 31, 30, 29, 30, 29, 30, 30])
    ]"

definition nepaliCalendarData :: "int \<Rightarrow> int list option" where
  "nepaliCalendarData = map_of calendarEntries"

definition nepaliMonthNames :: "jsstring list" where
  "nepaliMonthNames =
    [
     [0x092C, 0x0948, 0x0936, 0x093E, 0x0916],
     [0x091C, 0x0947, 0x0920],
     [0x0906, 0x0937, 0x093E, 0x0922],
     [0x0936, 0x094D, 0x0930, 0x093E, 0x0935, 0x0923],
     [0x092D, 0x093E, 0x0926, 0x094D, 0x0930],
     [0x0906, 0x0936, 0x094D, 0x0935, 0x093F, 0x0928],
     [0x0915, 0x093E, 0x0930, 0x094D, 0x0924, 0x093F, 0x0915],
     [0x092E, 0x0902, 0x0938, 0x093F, 0x0930],
     [0x092A, 0x094C, 0x0937],
     [0x092E, 0x093E, 0x0918],
     [0x092B, 0x093E, 0x0932, 0x094D, 0x0917, 0x0941, 0x0928],
     [0x091A, 0x0948, 0x0924, 0x094D, 0x0930]
    ]"

section \<open>The engine\<close>

definition createDateConversionError ::
  "error_code \<Rightarrow> jsstring \<Rightarrow> jsstring option \<Rightarrow> DateConversionError" where
  "createDateConversionError c msg dts = \<lparr>message = msg, code = c, details = dts\<rparr>"

definition isValidNepaliDate :: "NepaliDate \<Rightarrow> bool" where
  "isValidNepaliDate nepaliDate =
     (if year nepaliDate < 2000 \<or> year nepaliDate > 2100 then False
      else if month nepaliDate < 1 \<or> month nepaliDate > 12 then False
      else (case nepaliCalendarData (year nepaliDate) of
              None \<Rightarrow> False
            | Some monthData \<Rightarrow>
                (case index monthData (month nepaliDate - 1) of
                   None \<Rightarrow> False
                 | Some daysInMonth \<Rightarrow> day nepaliDate \<ge> 1 \<and> day nepaliDate \<le> daysInMonth)))"

definition getDaysInNepaliMonth :: "int \<Rightarrow> int \<Rightarrow> int result" where
  "getDaysInNepaliMonth y m =
     (case nepaliCalendarData y of
        None \<Rightarrow> Throw (createDateConversionError INVALID_NEPALI_DATE
                  (text_of ''Invalid year or month'')
                  (Some (text_of ''Year: '' @ toString y @ text_of '', Month: '' @ toString m)))
      | Some monthData \<Rightarrow>
          if m < 1 \<or> m > 12
          then Throw (createDateConversionError INVALID_NEPALI_DATE
                  (text_of ''Invalid year or month'')
                  (Some (text_of ''Year: '' @ toString y @ text_of '', Month: '' @ toString m)))
          else (case index monthData (m - 1) of None \<Rightarrow> Undefined | Some n \<Rightarrow> Return n))"

text \<open>
  The parameter \<^verbatim>\<open>format\<close> has the two values of its type; a call that omits it is a call
  with \<open>short\<close>. An index outside the month-name table reads \<^verbatim>\<open>undefined\<close>, which the
  template literal prints as that word.
\<close>

datatype format = short | long

definition formatNepaliDate :: "NepaliDate \<Rightarrow> format \<Rightarrow> jsstring" where
  "formatNepaliDate nepaliDate fmt =
     (if fmt = long
      then (let monthName = (case index nepaliMonthNames (month nepaliDate - 1) of
                               None \<Rightarrow> text_of ''undefined'' | Some n \<Rightarrow> n)
            in toString (day nepaliDate) @ text_of '' '' @ monthName @ text_of '' ''
                 @ toString (year nepaliDate))
      else toString (year nepaliDate) @ text_of ''/''
             @ padStart (toString (month nepaliDate)) 2 (text_of ''0'') @ text_of ''/''
             @ padStart (toString (day nepaliDate)) 2 (text_of ''0''))"


subsection \<open>Facts about the table that the loops rely on\<close>

lemma calendarEntries_keys: "map fst calendarEntries = [2000..2100]"
  by (simp add: calendarEntries_def)

lemma nepaliCalendarData_None_iff: "nepaliCalendarData y = None \<longleftrightarrow> y < 2000 \<or> 2100 < y"
proof -
  have "nepaliCalendarData y = None \<longleftrightarrow> y \<notin> set (map fst calendarEntries)"
    unfolding nepaliCalendarData_def by (simp add: map_of_eq_None_iff)
  also have "\<dots> \<longleftrightarrow> y < 2000 \<or> 2100 < y"
    unfolding calendarEntries_keys set_upto by auto
  finally show ?thesis .
qed

lemma nepaliCalendarData_Some_range:
  "nepaliCalendarData y = Some row \<Longrightarrow> 2000 \<le> y \<and> y \<le> 2100"
  using nepaliCalendarData_None_iff [of y] by auto

lemma calendarEntries_rows:
  "\<forall>(y, row) \<in> set calendarEntries. length row = 12 \<and> (\<forall>x \<in> set row. 29 \<le> x \<and> x \<le> 32)"
  by (simp add: calendarEntries_def)

lemma nepaliCalendarData_row:
  assumes "nepaliCalendarData y = Some row"
  shows "length row = 12" and "\<forall>x \<in> set row. 29 \<le> x \<and> x \<le> 32"
proof -
  from assms have "(y, row) \<in> set calendarEntries"
    unfolding nepaliCalendarData_def by (rule map_of_SomeD)
  with calendarEntries_rows have "length row = 12 \<and> (\<forall>x \<in> set row. 29 \<le> x \<and> x \<le> 32)"
    by blast
  then show "length row = 12" and "\<forall>x \<in> set row. 29 \<le> x \<and> x \<le> 32"
    by simp_all
qed

subsection \<open>Forward conversion\<close>

definition referenceEnglish :: Date where
  "referenceEnglish = newDate 1943 3 14"

definition referenceNepali :: NepaliDate where
  "referenceNepali = \<lparr>year = 2000, month = 1, day = 1\<rparr>"

text \<open>
  The \<^verbatim>\<open>while (nepaliDay > 0)\<close> loop of \<^verbatim>\<open>englishToNepali\<close>, on its three variables. It is
  left by \<^verbatim>\<open>break\<close>, by the throw, or when the condition fails. A month index outside the
  row reads \<^verbatim>\<open>undefined\<close>: the comparison with it is false, the subtraction makes
  \<^verbatim>\<open>nepaliDay\<close> NaN, the month advances, and the loop condition then fails.
\<close>

function englishToNepali_loop :: "int \<Rightarrow> int \<Rightarrow> int \<Rightarrow> NepaliDate result" where
  "englishToNepali_loop nepaliYear nepaliMonth nepaliDay =
     (if nepaliDay > 0 then
        (case nepaliCalendarData nepaliYear of
           None \<Rightarrow> Throw (createDateConversionError OUT_OF_RANGE
                     (text_of ''Date is beyond supported range'')
                     (Some (text_of ''Maximum supported year is 2100 BS'')))
         | Some monthData \<Rightarrow>
             (case index monthData (nepaliMonth - 1) of
                None \<Rightarrow>
                  if nepaliMonth + 1 > 12 then NaNDate (nepaliYear + 1) 1
                  else NaNDate nepaliYear (nepaliMonth + 1)
              | Some daysInMonth \<Rightarrow>
                  if nepaliDay \<le> daysInMonth
                  then Return \<lparr>year = nepaliYear, month = nepaliMonth, day = nepaliDay\<rparr>
                  else if nepaliMonth + 1 > 12
                  then englishToNepali_loop (nepaliYear + 1) 1 (nepaliDay - daysInMonth)
                  else englishToNepali_loop nepaliYear (nepaliMonth + 1) (nepaliDay - daysInMonth)))
      else Return \<lparr>year = nepaliYear, month = nepaliMonth, day = nepaliDay\<rparr>)"
  by pat_completeness auto
termination
  by (relation "measures [\<lambda>(y, m, d). nat (2101 - y), \<lambda>(y, m, d). nat (12 - m)]")
     (auto dest: nepaliCalendarData_Some_range)

declare englishToNepali_loop.simps [simp del]

text \<open>
  \<^verbatim>\<open>diffTime\<close> is the difference of the two time values. When the argument is the Invalid
  Date, \<^verbatim>\<open>diffTime\<close>, \<^verbatim>\<open>diffDays\<close> and \<^verbatim>\<open>nepaliDay\<close> are NaN: \<^verbatim>\<open>diffDays < 0\<close> is
  false, so nothing is thrown, \<^verbatim>\<open>nepaliDay > 0\<close> is false, so the loop body never runs,
  and the date returned has the year and month of the reference and the day NaN.

  Every error thrown inside the \<^verbatim>\<open>try\<close> block carries a \<^verbatim>\<open>code\<close>, so the \<^verbatim>\<open>catch\<close> block
  rethrows it unchanged; the re-wrapping as \<open>INVALID_ENGLISH_DATE\<close> has nothing to catch,
  since no statement of the block raises an exception of another kind on a \<^verbatim>\<open>Date\<close>.
\<close>

definition englishToNepali :: "zone \<Rightarrow> Date \<Rightarrow> NepaliDate result" where
  "englishToNepali z englishDate =
     (case getTime z englishDate of
        None \<Rightarrow> NaNDate (year referenceNepali) (month referenceNepali)
      | Some englishTime \<Rightarrow>
          (case getTime z referenceEnglish of
             None \<Rightarrow> NaNDate (year referenceNepali) (month referenceNepali)
           | Some referenceTime \<Rightarrow>
               (let diffTime = englishTime - referenceTime;
                    diffDays = diffTime div (1000 * 60 * 60 * 24)
                in if diffDays < 0
                   then Throw (createDateConversionError OUT_OF_RANGE
                          (text_of ''Date is before supported range'')
                          (Some (text_of ''Minimum supported date is April 14, 1943 AD'')))
                   else englishToNepali_loop (year referenceNepali) (month referenceNepali)
                          (day referenceNepali + diffDays))))"

subsection \<open>Reverse conversion\<close>

text \<open>
  The two \<^verbatim>\<open>for\<close> loops of \<^verbatim>\<open>nepaliToEnglish\<close>, each on its counter and \<^verbatim>\<open>totalDays\<close>.
  A month index outside the row reads \<^verbatim>\<open>undefined\<close> and makes \<^verbatim>\<open>totalDays\<close> NaN; the
  date that \<^verbatim>\<open>setDate\<close> then leaves is the Invalid Date. The year loop reads no element
  of a row and has no such outcome.
\<close>

function addCompleteYears :: "int \<Rightarrow> int \<Rightarrow> int \<Rightarrow> int result" where
  "addCompleteYears yr targetYear totalDays =
     (if yr < targetYear then
        (case nepaliCalendarData yr of
           None \<Rightarrow> Throw (createDateConversionError OUT_OF_RANGE
                     (text_of ''Year not supported'') (Some (text_of ''Year: '' @ toString yr)))
         | Some monthData \<Rightarrow>
             addCompleteYears (yr + 1) targetYear
               (totalDays + foldl (\<lambda>sum days. sum + days) 0 monthData))
      else Return totalDays)"
  by pat_completeness auto
termination
  by (relation "measure (\<lambda>(yr, targetYear, totalDays). nat (targetYear - yr))") auto

declare addCompleteYears.simps [simp del]

function addCompleteMonths :: "int list \<Rightarrow> int \<Rightarrow> int \<Rightarrow> int \<Rightarrow> int result" where
  "addCompleteMonths targetYearData mo targetMonth totalDays =
     (if mo < targetMonth then
        (case index targetYearData (mo - 1) of
           None \<Rightarrow> Undefined
         | Some days \<Rightarrow> addCompleteMonths targetYearData (mo + 1) targetMonth (totalDays + days))
      else Return totalDays)"
  by pat_completeness auto
termination
  by (relation "measure (\<lambda>(targetYearData, mo, targetMonth, totalDays). nat (targetMonth - mo))") auto

declare addCompleteMonths.simps [simp del]

definition nepaliToEnglish :: "NepaliDate \<Rightarrow> Date result" where
  "nepaliToEnglish nepaliDate =
     (if \<not> isValidNepaliDate nepaliDate
      then Throw (createDateConversionError INVALID_NEPALI_DATE
             (text_of ''Invalid Nepali date provided'')
             (Some (text_of ''Date: '' @ toString (year nepaliDate) @ text_of ''/''
                      @ toString (month nepaliDate) @ text_of ''/'' @ toString (day nepaliDate))))
      else
        (case addCompleteYears (year referenceNepali) (year nepaliDate) 0 of
           Throw e \<Rightarrow> Throw e
         | Undefined \<Rightarrow> Return InvalidDate
         | NaNDate y m \<Rightarrow> Return InvalidDate
         | Return yearsTotal \<Rightarrow>
             (case nepaliCalendarData (year nepaliDate) of
                None \<Rightarrow> Throw (createDateConversionError OUT_OF_RANGE
                          (text_of ''Year not supported'')
                          (Some (text_of ''Year: '' @ toString (year nepaliDate))))
              | Some targetYearData \<Rightarrow>
                  (case addCompleteMonths targetYearData 1 (month nepaliDate) yearsTotal of
                     Throw e \<Rightarrow> Throw e
                   | Undefined \<Rightarrow> Return InvalidDate
                   | NaNDate y m \<Rightarrow> Return InvalidDate
                   | Return monthsTotal \<Rightarrow>
                       Return (addDays referenceEnglish
                                 (monthsTotal + (day nepaliDate - day referenceNepali)))))))"

subsection \<open>Current date\<close>

text \<open>
  \<^verbatim>\<open>getCurrentNepaliDate\<close> reads the clock; the date that \<^verbatim>\<open>new Date()\<close> gives is the
  argument here. The \<^verbatim>\<open>catch\<close> block replaces a thrown error only; whatever
  \<^verbatim>\<open>englishToNepali\<close> returns is returned. The \<^verbatim>\<open>console.warn\<close> has no effect on the
  result.
\<close>

definition getCurrentNepaliDate :: "zone \<Rightarrow> Date \<Rightarrow> NepaliDate result" where
  "getCurrentNepaliDate z now =
     (case englishToNepali z now of
        Throw e \<Rightarrow> Return \<lparr>year = 2081, month = 1, day = 1\<rparr>
      | Return d \<Rightarrow> Return d
      | Undefined \<Rightarrow> Undefined
      | NaNDate y m \<Rightarrow> NaNDate y m)"

section \<open>Day counts\<close>

text \<open>
  Closed forms of what the loops accumulate: the length of a month, the length of a year,
  and the number of days between the first day of BS 2000 and the first day of a month.
\<close>

lemma sum_int_last: "a \<le> b \<Longrightarrow> sum f {a..<b + 1} = sum f {a..<b} + (f (b::int) :: int)"
proof -
  assume "a \<le> b"
  then have "{a..<b + 1} = insert b {a..<b}" by auto
  then show ?thesis by simp
qed

lemma sum_int_first: "a < b \<Longrightarrow> sum f {a..<b} = (f a :: int) + sum f {a + 1..<b::int}"
proof -
  assume "a < b"
  then have "{a..<b} = insert a {a + 1..<b}" by auto
  then show ?thesis by simp
qed

definition monthDays :: "int \<Rightarrow> int \<Rightarrow> int" where
  "monthDays y m =
     (case nepaliCalendarData y of
        None \<Rightarrow> 0
      | Some row \<Rightarrow> (case index row (m - 1) of None \<Rightarrow> 0 | Some n \<Rightarrow> n))"

definition yearDays :: "int \<Rightarrow> int" where
  "yearDays y =
     (case nepaliCalendarData y of
        None \<Rightarrow> 0
      | Some row \<Rightarrow> foldl (\<lambda>sum days. sum + days) 0 row)"

definition daysBeforeYear :: "int \<Rightarrow> int" where
  "daysBeforeYear y = (\<Sum>y' \<in> {2000..<y}. yearDays y')"

definition daysBeforeMonth :: "int \<Rightarrow> int \<Rightarrow> int" where
  "daysBeforeMonth y m = (\<Sum>m' \<in> {1..<m}. monthDays y m')"

lemma row12:
  assumes "length (row :: int list) = 12"
  shows "foldl (\<lambda>sum days. sum + days) 0 row
         = (\<Sum>m \<in> {1..<13}. case index row (m - 1) of None \<Rightarrow> 0 | Some n \<Rightarrow> n)"
proof -
  from assms obtain a1 a2 a3 a4 a5 a6 a7 a8 a9 a10 a11 a12
    where "row = [a1, a2, a3, a4, a5, a6, a7, a8, a9, a10, a11, a12]"
    by (auto simp: numeral_eq_Suc length_Suc_conv)
  then show ?thesis
    by (simp add: sum_int_first index_def)
qed

lemma nepaliCalendarData_Some:
  "2000 \<le> y \<Longrightarrow> y \<le> 2100 \<Longrightarrow> \<exists>row. nepaliCalendarData y = Some row"
  using nepaliCalendarData_None_iff [of y] by (cases "nepaliCalendarData y") auto

lemma index_Some:
  "0 \<le> i \<Longrightarrow> i < int (length xs) \<Longrightarrow> index xs i = Some (xs ! nat i)"
  by (simp add: index_def)

lemma monthDays_index:
  "nepaliCalendarData y = Some row \<Longrightarrow> 1 \<le> m \<Longrightarrow> m \<le> 12
     \<Longrightarrow> index row (m - 1) = Some (monthDays y m)"
  by (frule nepaliCalendarData_row(1)) (simp add: monthDays_def index_def)

lemma monthDays_bounds:
  assumes "2000 \<le> y" "y \<le> 2100" "1 \<le> m" "m \<le> 12"
  shows "29 \<le> monthDays y m \<and> monthDays y m \<le> 32"
proof -
  from assms obtain row where row: "nepaliCalendarData y = Some row"
    using nepaliCalendarData_Some by blast
  then have len: "length row = 12" and rng: "\<forall>x \<in> set row. 29 \<le> x \<and> x \<le> 32"
    by (rule nepaliCalendarData_row)+
  from len assms have "row ! nat (m - 1) \<in> set row" by simp
  moreover from row len assms have "monthDays y m = row ! nat (m - 1)"
    by (simp add: monthDays_def index_def)
  ultimately show ?thesis using rng by simp
qed

lemma yearDays_months:
  assumes "2000 \<le> y" "y \<le> 2100"
  shows "yearDays y = daysBeforeMonth y 13"
proof -
  from assms obtain row where row: "nepaliCalendarData y = Some row"
    using nepaliCalendarData_Some by blast
  then have "length row = 12" by (rule nepaliCalendarData_row)
  then show ?thesis
    using row by (simp add: yearDays_def daysBeforeMonth_def monthDays_def row12)
qed

lemma addCompleteYears_eq:
  "2000 \<le> yr \<Longrightarrow> yr \<le> t \<Longrightarrow> t \<le> 2101
     \<Longrightarrow> addCompleteYears yr t acc = Return (acc + (\<Sum>y' \<in> {yr..<t}. yearDays y'))"
proof (induction yr t acc rule: addCompleteYears.induct)
  case (1 yr t acc)
  show ?case
  proof (cases "yr < t")
    case False
    with "1.prems" show ?thesis by (simp add: addCompleteYears.simps)
  next
    case True
    with "1.prems" obtain row where row: "nepaliCalendarData yr = Some row"
      using nepaliCalendarData_Some [of yr] by auto
    from True row "1.prems"
    have "addCompleteYears (yr + 1) t (acc + foldl (\<lambda>sum days. sum + days) 0 row)
          = Return (acc + foldl (\<lambda>sum days. sum + days) 0 row + (\<Sum>y' \<in> {yr + 1..<t}. yearDays y'))"
      by (intro "1.IH") auto
    with True row show ?thesis
      by (simp add: addCompleteYears.simps [of yr] sum_int_first [of yr t] yearDays_def)
  qed
qed

lemma addCompleteMonths_eq:
  "nepaliCalendarData y = Some row \<Longrightarrow> 1 \<le> mo \<Longrightarrow> mo \<le> t \<Longrightarrow> t \<le> 13
     \<Longrightarrow> addCompleteMonths row mo t acc = Return (acc + (\<Sum>m' \<in> {mo..<t}. monthDays y m'))"
proof (induction row mo t acc rule: addCompleteMonths.induct)
  case (1 row mo t acc)
  show ?case
  proof (cases "mo < t")
    case False
    with "1.prems" show ?thesis by (simp add: addCompleteMonths.simps)
  next
    case True
    with "1.prems" have ix: "index row (mo - 1) = Some (monthDays y mo)"
      by (intro monthDays_index) auto
    from True ix "1.prems"
    have "addCompleteMonths row (mo + 1) t (acc + monthDays y mo)
          = Return (acc + monthDays y mo + (\<Sum>m' \<in> {mo + 1..<t}. monthDays y m'))"
      by (intro "1.IH") auto
    with True ix show ?thesis
      by (simp add: addCompleteMonths.simps [of row mo] sum_int_first [of mo t])
  qed
qed

lemma isValidNepaliDate_iff:
  "isValidNepaliDate d \<longleftrightarrow>
     2000 \<le> year d \<and> year d \<le> 2100 \<and> 1 \<le> month d \<and> month d \<le> 12
       \<and> 1 \<le> day d \<and> day d \<le> monthDays (year d) (month d)"
proof (cases "2000 \<le> year d \<and> year d \<le> 2100 \<and> 1 \<le> month d \<and> month d \<le> 12")
  case False
  then show ?thesis by (auto simp: isValidNepaliDate_def)
next
  case True
  then obtain row where row: "nepaliCalendarData (year d) = Some row"
    using nepaliCalendarData_Some by blast
  with True have "index row (month d - 1) = Some (monthDays (year d) (month d))"
    by (intro monthDays_index) auto
  with True row show ?thesis by (auto simp: isValidNepaliDate_def)
qed

definition daysBefore :: "int \<Rightarrow> int \<Rightarrow> int" where
  "daysBefore y m = daysBeforeYear y + daysBeforeMonth y m"

lemma nepaliToEnglish_eq:
  assumes "isValidNepaliDate d"
  shows "nepaliToEnglish d
         = Return (addDays referenceEnglish (daysBefore (year d) (month d) + (day d - 1)))"
proof -
  from assms have v: "2000 \<le> year d" "year d \<le> 2100" "1 \<le> month d" "month d \<le> 12"
    by (simp_all add: isValidNepaliDate_iff)
  then obtain row where row: "nepaliCalendarData (year d) = Some row"
    using nepaliCalendarData_Some by blast
  from v have ys: "addCompleteYears 2000 (year d) 0 = Return (daysBeforeYear (year d))"
    by (simp add: addCompleteYears_eq daysBeforeYear_def)
  from row v have ms: "addCompleteMonths row 1 (month d) (daysBeforeYear (year d))
      = Return (daysBefore (year d) (month d))"
    by (simp add: addCompleteMonths_eq [of "year d"] daysBefore_def daysBeforeMonth_def)
  from assms row ys ms show ?thesis
    by (simp add: nepaliToEnglish_def referenceNepali_def)
qed


section \<open>The forward walk\<close>

lemma englishToNepali_loop_unfold:
  assumes "2000 \<le> y" "y \<le> 2100" "1 \<le> m" "m \<le> 12" "0 < d"
  shows "englishToNepali_loop y m d =
           (if d \<le> monthDays y m then Return \<lparr>year = y, month = m, day = d\<rparr>
            else if m = 12 then englishToNepali_loop (y + 1) 1 (d - monthDays y m)
            else englishToNepali_loop y (m + 1) (d - monthDays y m))"
proof -
  from assms obtain row where row: "nepaliCalendarData y = Some row"
    using nepaliCalendarData_Some by blast
  with assms have ix: "index row (m - 1) = Some (monthDays y m)"
    by (intro monthDays_index) auto
  from assms row ix show ?thesis
    by (subst englishToNepali_loop.simps) auto
qed

definition beyondSupportedRange :: DateConversionError where
  "beyondSupportedRange = createDateConversionError OUT_OF_RANGE
     (text_of ''Date is beyond supported range'')
     (Some (text_of ''Maximum supported year is 2100 BS''))"

lemma englishToNepali_loop_beyond:
  "0 < d \<Longrightarrow> englishToNepali_loop 2101 m d = Throw beyondSupportedRange"
proof -
  have "nepaliCalendarData 2101 = None" by (simp add: nepaliCalendarData_None_iff)
  moreover assume "0 < d"
  ultimately show ?thesis
    by (subst englishToNepali_loop.simps) (simp add: beyondSupportedRange_def)
qed

lemma daysBeforeMonth_1: "daysBeforeMonth y 1 = 0"
  by (simp add: daysBeforeMonth_def)

lemma daysBeforeMonth_next:
  "1 \<le> m \<Longrightarrow> daysBeforeMonth y (m + 1) = daysBeforeMonth y m + monthDays y m"
  by (simp add: daysBeforeMonth_def sum_int_last)

lemma daysBeforeYear_2000: "daysBeforeYear 2000 = 0"
  by (simp add: daysBeforeYear_def)

lemma daysBeforeYear_next:
  "2000 \<le> y \<Longrightarrow> daysBeforeYear (y + 1) = daysBeforeYear y + yearDays y"
  by (simp add: daysBeforeYear_def sum_int_last)

lemma daysBeforeMonth_mono:
  assumes "2000 \<le> y" "y \<le> 2100" "1 \<le> m1" "m1 \<le> m2" "m2 \<le> 13"
  shows "daysBeforeMonth y m1 \<le> daysBeforeMonth y m2"
  unfolding daysBeforeMonth_def
proof (rule sum_mono2)
  show "finite {1..<m2}" by simp
  show "{1..<m1} \<subseteq> {1..<m2}" using assms by auto
  show "0 \<le> monthDays y b" if "b \<in> {1..<m2} - {1..<m1}" for b
    using that assms monthDays_bounds [of y b] by auto
qed

lemma yearDays_nonneg:
  assumes "2000 \<le> y" "y \<le> 2100"
  shows "0 \<le> yearDays y"
  using assms daysBeforeMonth_mono [of y 1 13] by (simp add: yearDays_months daysBeforeMonth_1)

lemma daysBeforeYear_mono:
  assumes "2000 \<le> y1" "y1 \<le> y2" "y2 \<le> 2101"
  shows "daysBeforeYear y1 \<le> daysBeforeYear y2"
  unfolding daysBeforeYear_def
proof (rule sum_mono2)
  show "finite {2000..<y2}" by simp
  show "{2000..<y1} \<subseteq> {2000..<y2}" using assms by auto
  show "0 \<le> yearDays b" if "b \<in> {2000..<y2} - {2000..<y1}" for b
    using that assms yearDays_nonneg [of b] by auto
qed

lemma daysBefore_month_end:
  assumes "2000 \<le> y" "y \<le> 2100" "1 \<le> m" "m \<le> 12"
  shows "daysBefore y m + monthDays y m \<le> daysBeforeYear (y + 1)"
proof -
  from assms have "daysBeforeMonth y (m + 1) \<le> daysBeforeMonth y 13"
    by (intro daysBeforeMonth_mono) auto
  with assms show ?thesis
    by (simp add: daysBefore_def daysBeforeYear_next yearDays_months daysBeforeMonth_next)
qed

lemma daysBefore_next_month:
  "1 \<le> m \<Longrightarrow> daysBefore y (m + 1) = daysBefore y m + monthDays y m"
  by (simp add: daysBefore_def daysBeforeMonth_next)

lemma daysBefore_next_year:
  assumes "2000 \<le> y" "y \<le> 2100"
  shows "daysBefore (y + 1) 1 = daysBefore y 12 + monthDays y 12"
  using assms daysBeforeMonth_next [of 12 y]
  by (simp add: daysBefore_def daysBeforeYear_next yearDays_months daysBeforeMonth_1)

lemma daysBefore_ge_year:
  assumes "2000 \<le> y" "y \<le> 2100" "1 \<le> m" "m \<le> 13"
  shows "daysBeforeYear y \<le> daysBefore y m"
  using assms daysBeforeMonth_mono [of y 1 m] by (simp add: daysBefore_def daysBeforeMonth_1)


lemma englishToNepali_loop_sound:
  "2000 \<le> y \<Longrightarrow> y \<le> 2100 \<Longrightarrow> 1 \<le> m \<Longrightarrow> m \<le> 12 \<Longrightarrow> 1 \<le> d
     \<Longrightarrow> daysBefore y m + d \<le> daysBeforeYear 2101
     \<Longrightarrow> \<exists>r. englishToNepali_loop y m d = Return r \<and> isValidNepaliDate r
           \<and> daysBefore (year r) (month r) + day r = daysBefore y m + d"
proof (induction y m d rule: englishToNepali_loop.induct)
  case (1 y m d)
  from "1.prems" obtain row where row: "nepaliCalendarData y = Some row"
    using nepaliCalendarData_Some by blast
  with "1.prems" have ix: "index row (m - 1) = Some (monthDays y m)"
    by (intro monthDays_index) auto
  from "1.prems" have dpos: "0 < d" by simp
  note unf = englishToNepali_loop_unfold [OF "1.prems"(1-4) dpos]
  show ?case
  proof (cases "d \<le> monthDays y m")
    case True
    with "1.prems" unf show ?thesis by (simp add: isValidNepaliDate_iff)
  next
    case False
    then have rest: "1 \<le> d - monthDays y m" by simp
    show ?thesis
    proof (cases "m = 12")
      case True
      then have m12: "12 < m + 1" by simp
      from True "1.prems" have nxt: "daysBefore (y + 1) 1 = daysBefore y m + monthDays y m"
        by (simp add: daysBefore_next_year)
      have "y + 1 \<le> 2100"
      proof (rule ccontr)
        assume "\<not> y + 1 \<le> 2100"
        with "1.prems" have "y + 1 = 2101" by simp
        with nxt have "daysBeforeYear 2101 = daysBefore y m + monthDays y m"
          by (simp add: daysBefore_def daysBeforeMonth_1)
        with "1.prems" False show False by simp
      qed
      moreover from nxt "1.prems" have "daysBefore (y + 1) 1 + (d - monthDays y m) \<le> daysBeforeYear 2101"
        by simp
      ultimately have "\<exists>r. englishToNepali_loop (y + 1) 1 (d - monthDays y m) = Return r
            \<and> isValidNepaliDate r
            \<and> daysBefore (year r) (month r) + day r = daysBefore (y + 1) 1 + (d - monthDays y m)"
        using "1.prems" rest by (intro "1.IH"(1) [OF dpos row ix False m12]) auto
      with unf False True nxt show ?thesis by auto
    next
      case nl: False
      with "1.prems" have m12: "\<not> 12 < m + 1" by simp
      from "1.prems" have nxt: "daysBefore y (m + 1) = daysBefore y m + monthDays y m"
        by (simp add: daysBefore_next_month)
      with "1.prems" have "daysBefore y (m + 1) + (d - monthDays y m) \<le> daysBeforeYear 2101"
        by simp
      then have "\<exists>r. englishToNepali_loop y (m + 1) (d - monthDays y m) = Return r
            \<and> isValidNepaliDate r
            \<and> daysBefore (year r) (month r) + day r = daysBefore y (m + 1) + (d - monthDays y m)"
        using "1.prems" rest nl by (intro "1.IH"(2) [OF dpos row ix False m12]) auto
      with unf False nl nxt show ?thesis by auto
    qed
  qed
qed

lemma englishToNepali_loop_fail:
  "2000 \<le> y \<Longrightarrow> y \<le> 2100 \<Longrightarrow> 1 \<le> m \<Longrightarrow> m \<le> 12 \<Longrightarrow> 1 \<le> d
     \<Longrightarrow> daysBeforeYear 2101 < daysBefore y m + d
     \<Longrightarrow> englishToNepali_loop y m d = Throw beyondSupportedRange"
proof (induction y m d rule: englishToNepali_loop.induct)
  case (1 y m d)
  from "1.prems" obtain row where row: "nepaliCalendarData y = Some row"
    using nepaliCalendarData_Some by blast
  with "1.prems" have ix: "index row (m - 1) = Some (monthDays y m)"
    by (intro monthDays_index) auto
  from "1.prems" have dpos: "0 < d" by simp
  note unf = englishToNepali_loop_unfold [OF "1.prems"(1-4) dpos]
  from "1.prems" have "daysBefore y m + monthDays y m \<le> daysBeforeYear (y + 1)"
    by (intro daysBefore_month_end)
  moreover from "1.prems" have "daysBeforeYear (y + 1) \<le> daysBeforeYear 2101"
    by (intro daysBeforeYear_mono) auto
  ultimately have False: "\<not> d \<le> monthDays y m" using "1.prems" by simp
  then have rest: "1 \<le> d - monthDays y m" by simp
  show ?case
  proof (cases "m = 12")
    case True
    then have m12: "12 < m + 1" by simp
    from True "1.prems" have nxt: "daysBefore (y + 1) 1 = daysBefore y m + monthDays y m"
      by (simp add: daysBefore_next_year)
    show ?thesis
    proof (cases "y = 2100")
      case True
      with rest have "englishToNepali_loop (y + 1) 1 (d - monthDays y m) = Throw beyondSupportedRange"
        by (simp add: englishToNepali_loop_beyond)
      with unf False \<open>m = 12\<close> show ?thesis by simp
    next
      case ny: False
      with "1.prems" have "y + 1 \<le> 2100" by simp
      moreover from nxt "1.prems" have "daysBeforeYear 2101 < daysBefore (y + 1) 1 + (d - monthDays y m)"
        by simp
      ultimately have "englishToNepali_loop (y + 1) 1 (d - monthDays y m) = Throw beyondSupportedRange"
        using "1.prems" rest by (intro "1.IH"(1) [OF dpos row ix False m12]) auto
      with unf False True show ?thesis by simp
    qed
  next
    case nl: False
    with "1.prems" have m12: "\<not> 12 < m + 1" by simp
    from "1.prems" have nxt: "daysBefore y (m + 1) = daysBefore y m + monthDays y m"
      by (simp add: daysBefore_next_month)
    with "1.prems" have "daysBeforeYear 2101 < daysBefore y (m + 1) + (d - monthDays y m)"
      by simp
    then have "englishToNepali_loop y (m + 1) (d - monthDays y m) = Throw beyondSupportedRange"
      using "1.prems" rest nl by (intro "1.IH"(2) [OF dpos row ix False m12]) auto
    with unf False nl show ?thesis by simp
  qed
qed

lemma totalDays_strict:
  assumes v1: "isValidNepaliDate d1" and v2: "isValidNepaliDate d2"
    and lt: "year d1 < year d2 \<or> year d1 = year d2 \<and>
             (month d1 < month d2 \<or> month d1 = month d2 \<and> day d1 < day d2)"
  shows "daysBefore (year d1) (month d1) + day d1 < daysBefore (year d2) (month d2) + day d2"
proof -
  from v1 have a: "2000 \<le> year d1" "year d1 \<le> 2100" "1 \<le> month d1" "month d1 \<le> 12"
      "1 \<le> day d1" "day d1 \<le> monthDays (year d1) (month d1)"
    by (simp_all add: isValidNepaliDate_iff)
  from v2 have b: "2000 \<le> year d2" "year d2 \<le> 2100" "1 \<le> month d2" "month d2 \<le> 12"
      "1 \<le> day d2" "day d2 \<le> monthDays (year d2) (month d2)"
    by (simp_all add: isValidNepaliDate_iff)
  consider (y) "year d1 < year d2"
    | (m) "year d1 = year d2" "month d1 < month d2"
    | (d) "year d1 = year d2" "month d1 = month d2" "day d1 < day d2"
    using lt by blast
  then show ?thesis
  proof cases
    case y
    from a have "daysBefore (year d1) (month d1) + monthDays (year d1) (month d1)
        \<le> daysBeforeYear (year d1 + 1)"
      by (intro daysBefore_month_end)
    also from y a b have "\<dots> \<le> daysBeforeYear (year d2)"
      by (intro daysBeforeYear_mono) auto
    also from b have "\<dots> \<le> daysBefore (year d2) (month d2)"
      by (intro daysBefore_ge_year) auto
    finally show ?thesis using a b by simp
  next
    case m
    from m a b have "daysBeforeMonth (year d1) (month d1 + 1) \<le> daysBeforeMonth (year d1) (month d2)"
      by (intro daysBeforeMonth_mono) auto
    with m a b show ?thesis by (simp add: daysBefore_def daysBeforeMonth_next)
  next
    case d
    then show ?thesis by simp
  qed
qed

lemma totalDays_inj:
  assumes "isValidNepaliDate d1" "isValidNepaliDate d2"
    and "daysBefore (year d1) (month d1) + day d1 = daysBefore (year d2) (month d2) + day d2"
  shows "d1 = d2"
proof (rule ccontr)
  assume "d1 \<noteq> d2"
  then have "year d1 \<noteq> year d2 \<or> month d1 \<noteq> month d2 \<or> day d1 \<noteq> day d2"
    by (cases d1, cases d2) auto
  then have "(year d1 < year d2 \<or> year d1 = year d2 \<and>
             (month d1 < month d2 \<or> month d1 = month d2 \<and> day d1 < day d2))
          \<or> (year d2 < year d1 \<or> year d2 = year d1 \<and>
             (month d2 < month d1 \<or> month d2 = month d1 \<and> day d2 < day d1))"
    by auto
  with assms totalDays_strict [of d1 d2] totalDays_strict [of d2 d1] show False by auto
qed


lemma calendarEntries_distinct: "distinct (map fst calendarEntries)"
  unfolding calendarEntries_keys by simp

lemma yearDays_entry:
  assumes "(y, row) \<in> set calendarEntries"
  shows "yearDays y = foldl (\<lambda>sum days. sum + days) 0 row"
proof -
  from calendarEntries_distinct assms have "nepaliCalendarData y = Some row"
    unfolding nepaliCalendarData_def by (rule map_of_is_SomeI)
  then show ?thesis by (simp add: yearDays_def)
qed

lemma daysBeforeYear_2101: "daysBeforeYear 2101 = 36894"
proof -
  have "{2000..<2101::int} = set (map fst calendarEntries)"
    unfolding calendarEntries_keys set_upto by auto
  then have "daysBeforeYear 2101 = sum yearDays (set (map fst calendarEntries))"
    by (simp only: daysBeforeYear_def)
  also have "\<dots> = sum_list (map yearDays (map fst calendarEntries))"
    using calendarEntries_distinct by (simp only: sum_list_distinct_conv_sum_set)
  also have "\<dots> = sum_list (map (\<lambda>(y, row). foldl (\<lambda>sum days. sum + days) 0 row) calendarEntries)"
    unfolding map_map by (rule arg_cong [where f = sum_list], rule map_cong) (auto simp: yearDays_entry)
  also have "\<dots> = 36894"
    by (simp add: calendarEntries_def)
  finally show ?thesis .
qed

lemma total_value: "addCompleteYears 2000 2101 0 = Return 36894"
  using addCompleteYears_eq [of 2000 2101 0] daysBeforeYear_2101
  by (simp add: daysBeforeYear_def)

section \<open>The properties of the specification\<close>

text \<open>\<open>failsWith r c\<close>: the call threw an error whose \<^verbatim>\<open>code\<close> is \<open>c\<close>.\<close>

definition failsWith :: "'a result \<Rightarrow> error_code \<Rightarrow> bool" where
  "failsWith r c =
     (case r of Throw e \<Rightarrow> code e = c | Return v \<Rightarrow> False | Undefined \<Rightarrow> False
      | NaNDate y m \<Rightarrow> False)"

definition beforeSupportedRange :: DateConversionError where
  "beforeSupportedRange = createDateConversionError OUT_OF_RANGE
     (text_of ''Date is before supported range'')
     (Some (text_of ''Minimum supported date is April 14, 1943 AD''))"

lemma code_beforeSupportedRange: "code beforeSupportedRange = OUT_OF_RANGE"
  by (simp add: beforeSupportedRange_def createDateConversionError_def)

lemma code_beyondSupportedRange: "code beyondSupportedRange = OUT_OF_RANGE"
  by (simp add: beyondSupportedRange_def createDateConversionError_def)

lemma msPerDay_value: "msPerDay = 86400000"
  by (simp add: msPerDay_def)

lemma localMidnight_anchor: "localMidnight 1943 3 14 = - 9759 * msPerDay"
  by (simp add: localMidnight_def MakeDay_def DayFromYear_def monthStartDay_def InLeapYear_def)

lemma referenceEnglish_value: "referenceEnglish = LocalTime (- 9759 * msPerDay)"
  by (simp add: referenceEnglish_def newDate_def localMidnight_anchor)

lemma addDays_referenceEnglish:
  "addDays referenceEnglish n = LocalTime ((n - 9759) * msPerDay)"
  by (simp add: referenceEnglish_value algebra_simps)


text \<open>The value of \<^verbatim>\<open>diffDays\<close> for a date with the local reading \<open>t\<close>, in the zone \<open>z\<close>.\<close>

definition diffDaysIn :: "zone \<Rightarrow> int \<Rightarrow> int" where
  "diffDaysIn z t =
     ((t - z t) - (localMidnight 1943 3 14 - z (localMidnight 1943 3 14))) div msPerDay"

lemma englishToNepali_eq:
  "englishToNepali z (LocalTime t) =
     (if diffDaysIn z t < 0 then Throw beforeSupportedRange
      else englishToNepali_loop 2000 1 (diffDaysIn z t + 1))"
  by (simp add: englishToNepali_def referenceEnglish_def newDate_def referenceNepali_def
      beforeSupportedRange_def diffDaysIn_def msPerDay_value Let_def add.commute)



lemma daysBefore_2000_1: "daysBefore 2000 1 = 0"
  by (simp add: daysBefore_def daysBeforeYear_2000 daysBeforeMonth_1)

lemma daysBefore_nonneg:
  assumes "2000 \<le> y" "y \<le> 2100" "1 \<le> m" "m \<le> 13"
  shows "0 \<le> daysBefore y m"
proof -
  from assms have "daysBeforeYear 2000 \<le> daysBeforeYear y"
    by (intro daysBeforeYear_mono) auto
  with assms daysBefore_ge_year [of y m] show ?thesis
    by (simp add: daysBeforeYear_2000)
qed

lemma totalDays_le:
  assumes "isValidNepaliDate d"
  shows "daysBefore (year d) (month d) + day d \<le> daysBeforeYear 2101"
proof -
  from assms have a: "2000 \<le> year d" "year d \<le> 2100" "1 \<le> month d" "month d \<le> 12"
      "1 \<le> day d" "day d \<le> monthDays (year d) (month d)"
    by (simp_all add: isValidNepaliDate_iff)
  then have "daysBefore (year d) (month d) + monthDays (year d) (month d)
      \<le> daysBeforeYear (year d + 1)"
    by (intro daysBefore_month_end)
  also from a have "\<dots> \<le> daysBeforeYear 2101"
    by (intro daysBeforeYear_mono) auto
  finally show ?thesis using a by simp
qed

lemma totalDays_ge:
  assumes "isValidNepaliDate d"
  shows "0 \<le> daysBefore (year d) (month d) + (day d - 1)"
proof -
  from assms have a: "2000 \<le> year d" "year d \<le> 2100" "1 \<le> month d" "month d \<le> 12"
      "1 \<le> day d"
    by (simp_all add: isValidNepaliDate_iff)
  then have "0 \<le> daysBefore (year d) (month d)"
    by (intro daysBefore_nonneg) auto
  with a show ?thesis by simp
qed

lemma englishToNepali_in_range:
  assumes "0 \<le> diffDaysIn z t" "diffDaysIn z t + 1 \<le> daysBeforeYear 2101"
  shows "\<exists>r. englishToNepali z (LocalTime t) = Return r \<and> isValidNepaliDate r
           \<and> daysBefore (year r) (month r) + day r = diffDaysIn z t + 1"
  using assms englishToNepali_loop_sound [of 2000 1 "diffDaysIn z t + 1"]
  by (simp add: englishToNepali_eq daysBefore_2000_1)

lemma englishToNepali_beyond:
  assumes "daysBeforeYear 2101 < diffDaysIn z t + 1"
  shows "englishToNepali z (LocalTime t) = Throw beyondSupportedRange"
proof -
  have "0 \<le> daysBeforeYear 2101" by (simp add: daysBeforeYear_2101)
  with assms englishToNepali_loop_fail [of 2000 1 "diffDaysIn z t + 1"] show ?thesis
    by (simp add: englishToNepali_eq daysBefore_2000_1)
qed

lemma englishToNepali_cases:
  "(\<exists>r. englishToNepali z (LocalTime t) = Return r \<and> isValidNepaliDate r)
     \<or> englishToNepali z (LocalTime t) = Throw beforeSupportedRange
     \<or> englishToNepali z (LocalTime t) = Throw beyondSupportedRange"
proof (cases "diffDaysIn z t < 0")
  case True
  then show ?thesis by (simp add: englishToNepali_eq)
next
  case False
  show ?thesis
  proof (cases "diffDaysIn z t + 1 \<le> daysBeforeYear 2101")
    case True
    with False englishToNepali_in_range [of z t] show ?thesis by auto
  next
    case False
    then show ?thesis by (simp add: englishToNepali_beyond)
  qed
qed

lemma englishToNepali_day:
  assumes "isValidNepaliDate d"
    and "diffDaysIn z t = daysBefore (year d) (month d) + (day d - 1)"
  shows "englishToNepali z (LocalTime t) = Return d"
proof -
  from assms totalDays_ge [of d] have lo: "0 \<le> diffDaysIn z t" by simp
  from assms totalDays_le [of d] have hi: "diffDaysIn z t + 1 \<le> daysBeforeYear 2101" by simp
  from englishToNepali_in_range [OF lo hi] obtain r
    where r: "englishToNepali z (LocalTime t) = Return r" "isValidNepaliDate r"
      "daysBefore (year r) (month r) + day r = diffDaysIn z t + 1"
    by blast
  with assms have "daysBefore (year r) (month r) + day r = daysBefore (year d) (month d) + day d"
    by simp
  with r assms have "r = d" by (intro totalDays_inj)
  with r show ?thesis by simp
qed

lemma nepaliToEnglish_local:
  assumes "isValidNepaliDate d"
  shows "nepaliToEnglish d
         = Return (LocalTime ((daysBefore (year d) (month d) + (day d - 1) - 9759) * msPerDay))"
  using assms by (simp add: nepaliToEnglish_eq addDays_referenceEnglish)

subsection \<open>Day counts of particular dates\<close>

lemma calendarEntries_length: "length calendarEntries = 101"
  by (simp add: calendarEntries_def)

lemma calendarEntries_nth_fst:
  assumes "k < 101"
  shows "fst (calendarEntries ! k) = 2000 + int k"
proof -
  from assms have "fst (calendarEntries ! k) = map fst calendarEntries ! k"
    by (simp add: calendarEntries_length)
  also from assms have "\<dots> = 2000 + int k"
    unfolding calendarEntries_keys by (intro nth_upto) simp
  finally show ?thesis .
qed

lemma daysBeforeYear_prefix:
  "k \<le> 101 \<Longrightarrow> daysBeforeYear (2000 + int k)
     = sum_list (map (\<lambda>(y, row). foldl (\<lambda>sum days. sum + days) 0 row) (take k calendarEntries))"
proof (induction k)
  case 0
  then show ?case by (simp add: daysBeforeYear_2000)
next
  case (Suc k)
  then have k: "k < length calendarEntries" by (simp add: calendarEntries_length)
  then have "calendarEntries ! k \<in> set calendarEntries" by simp
  moreover from Suc.prems have "fst (calendarEntries ! k) = 2000 + int k"
    by (intro calendarEntries_nth_fst) simp
  ultimately have "(2000 + int k, snd (calendarEntries ! k)) \<in> set calendarEntries"
    by (metis prod.collapse)
  then have yd: "yearDays (2000 + int k)
      = foldl (\<lambda>sum days. sum + days) 0 (snd (calendarEntries ! k))"
    by (rule yearDays_entry)
  have "daysBeforeYear (2000 + int (Suc k)) = daysBeforeYear (2000 + int k) + yearDays (2000 + int k)"
    using daysBeforeYear_next [of "2000 + int k"] by (simp add: add.assoc)
  with Suc yd k show ?case
    by (simp add: take_Suc_conv_app_nth case_prod_unfold)
qed

lemma daysBeforeYear_2081: "daysBeforeYear 2081 = 29590"
  using daysBeforeYear_prefix [of 81] by (simp add: calendarEntries_def)

lemma row_2081:
  "nepaliCalendarData 2081 = Some [31, 31, 32, 32, 31, 30, 30, 30, 29, 30, 30, 30]"
  by (simp add: nepaliCalendarData_def calendarEntries_def)

lemma daysBefore_2081_8: "daysBefore 2081 8 = 29807"
  by (simp add: daysBefore_def daysBeforeYear_2081 daysBeforeMonth_def sum_int_first
      monthDays_def row_2081 index_def)


lemma isValid_2081_8_15: "isValidNepaliDate \<lparr>year = 2081, month = 8, day = 15\<rparr>"
  by (simp add: isValidNepaliDate_def row_2081 index_def)

lemma isValid_2081_8_14: "isValidNepaliDate \<lparr>year = 2081, month = 8, day = 14\<rparr>"
  by (simp add: isValidNepaliDate_def row_2081 index_def)


text \<open>
  The zone of Nepal: the offset is 5 hours 30 minutes until the end of 1985 and 5 hours
  45 minutes from 1 January 1986.
\<close>

definition kathmandu :: zone where
  "kathmandu t = (if t < 504921600000 then 19800000 else 20700000)"

lemma localMidnight_2024_11_5: "localMidnight 2024 11 5 = 20062 * msPerDay"
  by (simp add: localMidnight_def MakeDay_def DayFromYear_def monthStartDay_def InLeapYear_def)



lemma diffDaysIn_kathmandu_2024_11_5: "diffDaysIn kathmandu (localMidnight 2024 11 5) = 29820"
  by (simp add: diffDaysIn_def localMidnight_2024_11_5 localMidnight_anchor kathmandu_def
      msPerDay_value)





text \<open>
  C2 (epoch boundary). In every zone, the Gregorian date 1943-04-14
  (\<^verbatim>\<open>new Date(1943, 3, 14)\<close>) converts to BS 2000/1/1. The day before it, 1943-04-13, is
  refused with the code \<open>OUT_OF_RANGE\<close> in every zone whose offset at the midnight of the
  14th is less than a day above its offset at the midnight of the 13th, which holds
  wherever no calendar day was skipped between them.
\<close>

theorem epochBoundary:
  "englishToNepali z (newDate 1943 3 14) = Return \<lparr>year = 2000, month = 1, day = 1\<rparr>
   \<and> (z (localMidnight 1943 3 14) - z (localMidnight 1943 3 13) < msPerDay
        \<longrightarrow> failsWith (englishToNepali z (newDate 1943 3 13)) OUT_OF_RANGE)"
proof -
  have m13: "localMidnight 1943 3 13 = - 9760 * msPerDay"
    by (simp add: localMidnight_def MakeDay_def DayFromYear_def monthStartDay_def
        InLeapYear_def)
  have d14: "diffDaysIn z (localMidnight 1943 3 14) = 0"
    by (simp add: diffDaysIn_def)
  have "englishToNepali_loop 2000 1 1 = Return \<lparr>year = 2000, month = 1, day = 1\<rparr>"
    by (subst englishToNepali_loop.simps)
       (simp add: nepaliCalendarData_def calendarEntries_def index_def)
  with d14 have a: "englishToNepali z (newDate 1943 3 14)
      = Return \<lparr>year = 2000, month = 1, day = 1\<rparr>"
    by (simp add: newDate_def englishToNepali_eq)
  have b: "failsWith (englishToNepali z (newDate 1943 3 13)) OUT_OF_RANGE"
    if "z (localMidnight 1943 3 14) - z (localMidnight 1943 3 13) < msPerDay"
  proof -
    have "(localMidnight 1943 3 13 - z (localMidnight 1943 3 13))
          - (localMidnight 1943 3 14 - z (localMidnight 1943 3 14))
        = z (localMidnight 1943 3 14) - z (localMidnight 1943 3 13) - msPerDay"
      by (simp add: m13 localMidnight_anchor)
    with that have "diffDaysIn z (localMidnight 1943 3 13) < 0"
      by (simp add: diffDaysIn_def msPerDay_value)
    then show ?thesis
      by (simp add: newDate_def englishToNepali_eq failsWith_def code_beforeSupportedRange)
  qed
  from a b show ?thesis by blast
qed

theorem epochBoundary_witness:
  "kathmandu (localMidnight 1943 3 14) - kathmandu (localMidnight 1943 3 13) < msPerDay
   \<and> englishToNepali kathmandu (newDate 1943 3 14) = Return \<lparr>year = 2000, month = 1, day = 1\<rparr>
   \<and> failsWith (englishToNepali kathmandu (newDate 1943 3 13)) OUT_OF_RANGE"
proof -
  have h: "kathmandu (localMidnight 1943 3 14) - kathmandu (localMidnight 1943 3 13) < msPerDay"
    by (simp add: kathmandu_def localMidnight_def MakeDay_def DayFromYear_def monthStartDay_def
        InLeapYear_def msPerDay_def)
  from epochBoundary [of kathmandu] h show ?thesis by blast
qed










definition kartik :: jsstring where
  "kartik = [0x0915, 0x093E, 0x0930, 0x094D, 0x0924, 0x093F, 0x0915]"

definition mangsir :: jsstring where
  "mangsir = [0x092E, 0x0902, 0x0938, 0x093F, 0x0930]"

lemma toString_2081: "toString 2081 = text_of ''2081''"
  by (simp add: toString_def digits.simps text_of_def)

lemma toString_15: "toString 15 = text_of ''15''"
  by (simp add: toString_def digits.simps text_of_def)

lemma toString_8: "toString 8 = text_of ''8''"
  by (simp add: toString_def digits.simps text_of_def)

text \<open>
  C4 (formatting examples). For BS 2081/8/15 the short format is \<^verbatim>\<open>2081/08/15\<close>, as
  claimed. The long format reads entry \<open>month - 1 = 7\<close> of the month-name table, which is
  Mangsir: the result is "15 Mangsir 2081" and not the claimed "15 Kartik 2081"; Kartik is
  entry 6 of the table.
\<close>
theorem formatNepaliDate_examples:
  "formatNepaliDate \<lparr>year = 2081, month = 8, day = 15\<rparr> short = text_of ''2081/08/15''
   \<and> formatNepaliDate \<lparr>year = 2081, month = 8, day = 15\<rparr> long
       = text_of ''15 '' @ mangsir @ text_of '' 2081''
   \<and> formatNepaliDate \<lparr>year = 2081, month = 8, day = 15\<rparr> long
       \<noteq> text_of ''15 '' @ kartik @ text_of '' 2081''
   \<and> index nepaliMonthNames 6 = Some kartik"
  by (simp add: formatNepaliDate_def toString_2081 toString_15 toString_8 padStart_def
      nepaliMonthNames_def index_def mangsir_def kartik_def)
     (simp add: text_of_def)

text \<open>
  C5 (validator contract). \<open>isValidNepaliDate\<close> is a total boolean function. It is false
  exactly when the year is outside 2000..2100, or the month is outside 1..12, or the year
  has no table entry, or the day is outside 1..n for the length n that
  \<open>getDaysInNepaliMonth\<close> gives for the year and month. BS 2000/1/30 is valid; 2000/1/31,
  1999/1/1 and 2101/1/1 are not.
\<close>
theorem isValidNepaliDate_contract:
  "(isValidNepaliDate d = False \<longleftrightarrow>
      year d < 2000 \<or> year d > 2100 \<or> month d < 1 \<or> month d > 12
      \<or> nepaliCalendarData (year d) = None
      \<or> (\<exists>n. getDaysInNepaliMonth (year d) (month d) = Return n \<and> (day d < 1 \<or> day d > n)))
   \<and> isValidNepaliDate \<lparr>year = 2000, month = 1, day = 30\<rparr> = True
   \<and> isValidNepaliDate \<lparr>year = 2000, month = 1, day = 31\<rparr> = False
   \<and> isValidNepaliDate \<lparr>year = 1999, month = 1, day = 1\<rparr> = False
   \<and> isValidNepaliDate \<lparr>year = 2101, month = 1, day = 1\<rparr> = False"
proof -
  have m: "monthDays 2000 1 = 30"
    by (simp add: monthDays_def nepaliCalendarData_def calendarEntries_def index_def)
  have general: "isValidNepaliDate d = False \<longleftrightarrow>
      year d < 2000 \<or> year d > 2100 \<or> month d < 1 \<or> month d > 12
      \<or> nepaliCalendarData (year d) = None
      \<or> (\<exists>n. getDaysInNepaliMonth (year d) (month d) = Return n \<and> (day d < 1 \<or> day d > n))"
  proof (cases "2000 \<le> year d \<and> year d \<le> 2100 \<and> 1 \<le> month d \<and> month d \<le> 12")
    case False
    then show ?thesis by (auto simp: isValidNepaliDate_iff)
  next
    case True
    then obtain row where row: "nepaliCalendarData (year d) = Some row"
      using nepaliCalendarData_Some by blast
    with True have "index row (month d - 1) = Some (monthDays (year d) (month d))"
      by (intro monthDays_index) auto
    with True row
    have "getDaysInNepaliMonth (year d) (month d) = Return (monthDays (year d) (month d))"
      by (simp add: getDaysInNepaliMonth_def)
    with True row show ?thesis by (auto simp: isValidNepaliDate_iff)
  qed
  show ?thesis
    by (rule conjI [OF general]) (simp add: isValidNepaliDate_iff m)
qed


theorem isValidNepaliDate_contract_witness:
  "isValidNepaliDate \<lparr>year = 2000, month = 1, day = 31\<rparr> = False
   \<and> (\<exists>n. getDaysInNepaliMonth 2000 1 = Return n \<and> 31 > n)"
  using isValidNepaliDate_contract [of "\<lparr>year = 2000, month = 1, day = 31\<rparr>"]
  by (auto simp: nepaliCalendarData_None_iff)

definition invalidYearOrMonth :: "int \<Rightarrow> int \<Rightarrow> DateConversionError" where
  "invalidYearOrMonth y m = createDateConversionError INVALID_NEPALI_DATE
     (text_of ''Invalid year or month'')
     (Some (text_of ''Year: '' @ toString y @ text_of '', Month: '' @ toString m))"

text \<open>
  C6 (day-count lookup). \<open>getDaysInNepaliMonth\<close> throws \<open>INVALID_NEPALI_DATE\<close> exactly when
  the year has no table entry or the month is outside 1..12. For a year in 2000..2100 and
  a month in 1..12 it returns the entry \<open>month - 1\<close> of the year's row. For 2081 and month 8
  it returns 30.
\<close>
theorem getDaysInNepaliMonth_contract:
  "(failsWith (getDaysInNepaliMonth y m) INVALID_NEPALI_DATE
      \<longleftrightarrow> nepaliCalendarData y = None \<or> m < 1 \<or> m > 12)
   \<and> (2000 \<le> y \<and> y \<le> 2100 \<and> 1 \<le> m \<and> m \<le> 12 \<longrightarrow>
        (\<exists>row. nepaliCalendarData y = Some row \<and> nat (m - 1) < length row
           \<and> getDaysInNepaliMonth y m = Return (row ! nat (m - 1))))
   \<and> getDaysInNepaliMonth 2081 8 = Return 30"
proof -
  have bad: "getDaysInNepaliMonth y m = Throw (invalidYearOrMonth y m)"
    if "nepaliCalendarData y = None \<or> m < 1 \<or> m > 12"
    using that by (auto simp: getDaysInNepaliMonth_def invalidYearOrMonth_def split: option.splits)
  have good: "\<exists>row. nepaliCalendarData y = Some row \<and> nat (m - 1) < length row
           \<and> getDaysInNepaliMonth y m = Return (row ! nat (m - 1))"
    if "nepaliCalendarData y \<noteq> None" "1 \<le> m" "m \<le> 12"
  proof -
    from that obtain row where row: "nepaliCalendarData y = Some row" by auto
    then have "length row = 12" by (rule nepaliCalendarData_row)
    with row that show ?thesis by (simp add: getDaysInNepaliMonth_def index_def)
  qed
  have iff: "failsWith (getDaysInNepaliMonth y m) INVALID_NEPALI_DATE
      \<longleftrightarrow> nepaliCalendarData y = None \<or> m < 1 \<or> m > 12"
  proof (cases "nepaliCalendarData y = None \<or> m < 1 \<or> m > 12")
    case True
    with bad show ?thesis
      by (simp add: failsWith_def invalidYearOrMonth_def createDateConversionError_def)
  next
    case False
    with good obtain n where "getDaysInNepaliMonth y m = Return n" by fastforce
    with False show ?thesis by (simp add: failsWith_def)
  qed
  have stored: "2000 \<le> y \<and> y \<le> 2100 \<and> 1 \<le> m \<and> m \<le> 12 \<longrightarrow>
        (\<exists>row. nepaliCalendarData y = Some row \<and> nat (m - 1) < length row
           \<and> getDaysInNepaliMonth y m = Return (row ! nat (m - 1)))"
    using good nepaliCalendarData_None_iff [of y] by auto
  have ex: "getDaysInNepaliMonth 2081 8 = Return 30"
    by (simp add: getDaysInNepaliMonth_def nepaliCalendarData_def calendarEntries_def index_def)
  from iff stored ex show ?thesis by blast
qed

theorem getDaysInNepaliMonth_contract_witness:
  "(2000 \<le> (2000::int) \<and> (2000::int) \<le> 2100 \<and> 1 \<le> (2::int) \<and> (2::int) \<le> 12)
   \<and> nepaliCalendarData 2000 \<noteq> None
   \<and> getDaysInNepaliMonth 2000 2 = Return 32
   \<and> failsWith (getDaysInNepaliMonth 2000 13) INVALID_NEPALI_DATE
   \<and> failsWith (getDaysInNepaliMonth 1999 1) INVALID_NEPALI_DATE"
proof -
  have row: "nepaliCalendarData 2000 = Some [30, 32, 31, 32, 31, 30, 30, 30, 29, 30, 29, 31]"
    by (simp add: nepaliCalendarData_def calendarEntries_def)
  from getDaysInNepaliMonth_contract [of 2000 2] row
  have a: "getDaysInNepaliMonth 2000 2 = Return 32" by simp
  from getDaysInNepaliMonth_contract [of 2000 13]
  have b: "failsWith (getDaysInNepaliMonth 2000 13) INVALID_NEPALI_DATE" by simp
  from getDaysInNepaliMonth_contract [of 1999 1]
  have c: "failsWith (getDaysInNepaliMonth 1999 1) INVALID_NEPALI_DATE"
    by (simp add: nepaliCalendarData_None_iff)
  from a b c row show ?thesis by simp
qed

definition invalidNepaliDate :: "NepaliDate \<Rightarrow> DateConversionError" where
  "invalidNepaliDate nepaliDate = createDateConversionError INVALID_NEPALI_DATE
     (text_of ''Invalid Nepali date provided'')
     (Some (text_of ''Date: '' @ toString (year nepaliDate) @ text_of ''/''
              @ toString (month nepaliDate) @ text_of ''/'' @ toString (day nepaliDate)))"

text \<open>
  C7 (eager validation). \<open>nepaliToEnglish\<close> throws \<open>INVALID_NEPALI_DATE\<close> exactly when
  \<open>isValidNepaliDate\<close> rejects its argument, and then the error is the one of the first
  check, raised before any day is counted. On a valid date it returns a Gregorian date
  with a time value and does not throw \<open>OUT_OF_RANGE\<close>.
\<close>

theorem nepaliToEnglish_validation:
  "(failsWith (nepaliToEnglish d) INVALID_NEPALI_DATE \<longleftrightarrow> \<not> isValidNepaliDate d)
   \<and> (\<not> isValidNepaliDate d \<longrightarrow> nepaliToEnglish d = Throw (invalidNepaliDate d))
   \<and> (isValidNepaliDate d \<longrightarrow>
        (\<exists>t. nepaliToEnglish d = Return (LocalTime t))
        \<and> \<not> failsWith (nepaliToEnglish d) OUT_OF_RANGE)"
proof (cases "isValidNepaliDate d")
  case True
  then show ?thesis by (simp add: nepaliToEnglish_local failsWith_def)
next
  case False
  then have "nepaliToEnglish d = Throw (invalidNepaliDate d)"
    by (simp add: nepaliToEnglish_def invalidNepaliDate_def)
  with False show ?thesis
    by (simp add: failsWith_def invalidNepaliDate_def createDateConversionError_def)
qed

theorem nepaliToEnglish_validation_witness:
  "isValidNepaliDate \<lparr>year = 2081, month = 8, day = 15\<rparr>
   \<and> (\<exists>t. nepaliToEnglish \<lparr>year = 2081, month = 8, day = 15\<rparr> = Return (LocalTime t))
   \<and> \<not> isValidNepaliDate \<lparr>year = 2081, month = 13, day = 1\<rparr>
   \<and> failsWith (nepaliToEnglish \<lparr>year = 2081, month = 13, day = 1\<rparr>) INVALID_NEPALI_DATE"
proof -
  have n: "\<not> isValidNepaliDate \<lparr>year = 2081, month = 13, day = 1\<rparr>"
    by (simp add: isValidNepaliDate_def)
  from nepaliToEnglish_validation [of "\<lparr>year = 2081, month = 8, day = 15\<rparr>"] isValid_2081_8_15
  have a: "\<exists>t. nepaliToEnglish \<lparr>year = 2081, month = 8, day = 15\<rparr> = Return (LocalTime t)"
    by blast
  from nepaliToEnglish_validation [of "\<lparr>year = 2081, month = 13, day = 1\<rparr>"] n
  have b: "failsWith (nepaliToEnglish \<lparr>year = 2081, month = 13, day = 1\<rparr>) INVALID_NEPALI_DATE"
    by blast
  from isValid_2081_8_15 n a b show ?thesis by simp
qed

text \<open>
  The forward walk on a date that has a time value, in any zone. Let \<open>allDays\<close> be the
  number of days of the BS years 2000..2100, as the year loop of the reverse converter
  accumulates it. When the time value is on or after the anchor's and the whole-day
  offset \<^verbatim>\<open>diffDays\<close> exceeds \<open>allDays\<close>, \<open>englishToNepali\<close> throws \<open>OUT_OF_RANGE\<close>; and
  a date that it returns is accepted by \<open>isValidNepaliDate\<close>.
\<close>

lemma englishToNepali_walk_bound:
  "(0 \<le> diffDaysIn z t \<and> addCompleteYears 2000 2101 0 = Return allDays
      \<and> allDays < diffDaysIn z t
      \<longrightarrow> failsWith (englishToNepali z (LocalTime t)) OUT_OF_RANGE)
   \<and> (englishToNepali z (LocalTime t) = Return d \<longrightarrow> isValidNepaliDate d)"
proof -
  have "failsWith (englishToNepali z (LocalTime t)) OUT_OF_RANGE"
    if "addCompleteYears 2000 2101 0 = Return allDays" "allDays < diffDaysIn z t"
  proof -
    from that(1) have "allDays = daysBeforeYear 2101"
      by (simp add: total_value daysBeforeYear_2101)
    with that(2) have "daysBeforeYear 2101 < diffDaysIn z t + 1" by simp
    then have "englishToNepali z (LocalTime t) = Throw beyondSupportedRange"
      by (rule englishToNepali_beyond)
    then show ?thesis by (simp add: failsWith_def code_beyondSupportedRange)
  qed
  moreover have "isValidNepaliDate d" if "englishToNepali z (LocalTime t) = Return d"
    using that englishToNepali_cases [of z t] by auto
  ultimately show ?thesis by blast
qed

text \<open>
  C8 (upper bound of the forward walk). The claim that every date \<open>englishToNepali\<close>
  returns is accepted by \<open>isValidNepaliDate\<close> fails on the Invalid Date: in every zone the
  call throws nothing, neither \<open>OUT_OF_RANGE\<close> nor \<open>INVALID_ENGLISH_DATE\<close>, and returns the
  date object with year 2000, month 1 and day NaN.
\<close>

theorem englishToNepali_invalid_date:
  "englishToNepali z InvalidDate = NaNDate 2000 1
   \<and> \<not> failsWith (englishToNepali z InvalidDate) OUT_OF_RANGE
   \<and> \<not> failsWith (englishToNepali z InvalidDate) INVALID_ENGLISH_DATE"
  by (simp add: englishToNepali_def referenceNepali_def failsWith_def)

text \<open>
  C9 (fallback). Whatever the zone and the current instant are, \<open>getCurrentNepaliDate\<close>
  returns a date (the date that \<^verbatim>\<open>new Date()\<close> gives always has a time value). When the
  forward conversion throws, the date is the fallback BS 2081/1/1; when the forward
  conversion returns a date, it is that date.
\<close>

theorem getCurrentNepaliDate_never_throws:
  "(\<exists>d. getCurrentNepaliDate z (LocalTime t) = Return d)
   \<and> (englishToNepali z now = Throw e \<longrightarrow>
        getCurrentNepaliDate z now = Return \<lparr>year = 2081, month = 1, day = 1\<rparr>)
   \<and> (englishToNepali z now = Return d' \<longrightarrow> getCurrentNepaliDate z now = Return d')"
  using englishToNepali_cases [of z t] by (auto simp: getCurrentNepaliDate_def)

theorem getCurrentNepaliDate_never_throws_witness:
  "englishToNepali kathmandu (newDate 1943 3 13) = Throw beforeSupportedRange
   \<and> getCurrentNepaliDate kathmandu (newDate 1943 3 13)
       = Return \<lparr>year = 2081, month = 1, day = 1\<rparr>
   \<and> englishToNepali kathmandu (newDate 2024 11 5) = Return \<lparr>year = 2081, month = 8, day = 14\<rparr>
   \<and> getCurrentNepaliDate kathmandu (newDate 2024 11 5)
       = Return \<lparr>year = 2081, month = 8, day = 14\<rparr>"
proof -
  have "diffDaysIn kathmandu (localMidnight 1943 3 13) = - 1"
    by (simp add: diffDaysIn_def kathmandu_def localMidnight_def MakeDay_def DayFromYear_def
        monthStartDay_def InLeapYear_def msPerDay_def)
  then have thr: "englishToNepali kathmandu (newDate 1943 3 13) = Throw beforeSupportedRange"
    by (simp add: newDate_def englishToNepali_eq)
  have "englishToNepali kathmandu (LocalTime (localMidnight 2024 11 5))
        = Return \<lparr>year = 2081, month = 8, day = 14\<rparr>"
    by (rule englishToNepali_day [OF isValid_2081_8_14])
       (simp add: diffDaysIn_kathmandu_2024_11_5 daysBefore_2081_8)
  then have ret: "englishToNepali kathmandu (newDate 2024 11 5)
        = Return \<lparr>year = 2081, month = 8, day = 14\<rparr>"
    by (simp add: newDate_def)
  from getCurrentNepaliDate_never_throws
         [of kathmandu 0 "newDate 1943 3 13" beforeSupportedRange] thr
  have a: "getCurrentNepaliDate kathmandu (newDate 1943 3 13)
      = Return \<lparr>year = 2081, month = 1, day = 1\<rparr>"
    by blast
  from getCurrentNepaliDate_never_throws
         [of kathmandu 0 "newDate 2024 11 5" beforeSupportedRange
            "\<lparr>year = 2081, month = 8, day = 14\<rparr>"] ret
  have b: "getCurrentNepaliDate kathmandu (newDate 2024 11 5)
      = Return \<lparr>year = 2081, month = 8, day = 14\<rparr>"
    by blast
  from thr a ret b show ?thesis by simp
qed



end
